theory Spec2Isabelle
  imports Main "HOL-Library.Sublist"
begin

section \<open>Python text\<close>

text \<open>
  A Python \<open>str\<close> is modelled as a \<open>string\<close>. The string methods below are exact on
  ASCII text: the whitespace of \<open>str.strip\<close> and of the regular expression class
  \<open>\s\<close> below code point 128 is 9 to 13, 28 to 31 and 32, the cased characters are the
  letters, and every character from 128 on is left alone and counts as neither a
  letter nor whitespace. The symbols of the fixed reply texts that are not ASCII
  (emoji, the bullet) are written as their UTF-8 bytes; no length or comparison of
  the program ever looks inside a reply text.
\<close>

definition is_space :: "char \<Rightarrow> bool" where
  "is_space c = (let n = (of_char c :: nat) in (9 \<le> n \<and> n \<le> 13) \<or> (28 \<le> n \<and> n \<le> 32))"

definition is_upper :: "char \<Rightarrow> bool" where
  "is_upper c = (let n = (of_char c :: nat) in 65 \<le> n \<and> n \<le> 90)"

definition is_lower :: "char \<Rightarrow> bool" where
  "is_lower c = (let n = (of_char c :: nat) in 97 \<le> n \<and> n \<le> 122)"

definition is_alpha :: "char \<Rightarrow> bool" where
  "is_alpha c = (is_upper c \<or> is_lower c)"

definition is_digit :: "char \<Rightarrow> bool" where
  "is_digit c = (let n = (of_char c :: nat) in 48 \<le> n \<and> n \<le> 57)"

definition lower_char :: "char \<Rightarrow> char" where
  "lower_char c = (if is_upper c then char_of (of_char c + (32 :: nat)) else c)"

definition upper_char :: "char \<Rightarrow> char" where
  "upper_char c = (if is_lower c then char_of (of_char c - (32 :: nat)) else c)"

text \<open>\<open>s.strip()\<close>, \<open>s.strip(chars)\<close>, \<open>s.lower()\<close>.\<close>

definition strip_chars :: "(char \<Rightarrow> bool) \<Rightarrow> string \<Rightarrow> string" where
  "strip_chars P s = rev (dropWhile P (rev (dropWhile P s)))"

definition strip :: "string \<Rightarrow> string" where
  "strip s = strip_chars is_space s"

definition lower :: "string \<Rightarrow> string" where
  "lower s = map lower_char s"

text \<open>
  \<open>s.title()\<close>: a cased character is upper-cased when the character before it is not
  cased and lower-cased when it is.
\<close>

fun title_from :: "bool \<Rightarrow> string \<Rightarrow> string" where
  "title_from prev [] = []"
| "title_from prev (c # cs) =
     (if is_alpha c then (if prev then lower_char c else upper_char c) # title_from True cs
      else c # title_from False cs)"

definition title :: "string \<Rightarrow> string" where
  "title s = title_from False s"

text \<open>\<open>a in b\<close> on strings, \<open>s.startswith(p)\<close>.\<close>

definition contains :: "string \<Rightarrow> string \<Rightarrow> bool" where
  "contains sub s = sublist sub s"

definition startswith :: "string \<Rightarrow> string \<Rightarrow> bool" where
  "startswith s p = prefix p s"

text \<open>
  \<open>s.replace(old, '')\<close> for a non-empty \<open>old\<close>: every occurrence found scanning from
  the left is dropped, and the scan goes on behind it.
\<close>

fun remove_all :: "string \<Rightarrow> string \<Rightarrow> string" where
  "remove_all old [] = []"
| "remove_all old (c # cs) =
     (if old \<noteq> [] \<and> prefix old (c # cs) then remove_all old (drop (length old) (c # cs))
      else c # remove_all old cs)"

text \<open>\<open>s.split(',')\<close>: the empty string splits into one empty piece.\<close>

fun split_on :: "char \<Rightarrow> string \<Rightarrow> string list" where
  "split_on d [] = [[]]"
| "split_on d (c # cs) =
     (if c = d then [] # split_on d cs
      else (case split_on d cs of [] \<Rightarrow> [[c]] | w # ws \<Rightarrow> (c # w) # ws))"

text \<open>\<open>sep.join(xs)\<close>.\<close>

fun join :: "string \<Rightarrow> string list \<Rightarrow> string" where
  "join sep [] = []"
| "join sep [x] = x"
| "join sep (x # y # ys) = x @ sep @ join sep (y # ys)"

text \<open>\<open>str(n)\<close> for an integer, and for a nullable value inside an f-string.\<close>

fun str_nat :: "nat \<Rightarrow> string" where
  "str_nat n = (if n < 10 then [char_of (48 + n)] else str_nat (n div 10) @ [char_of (48 + n mod 10)])"

definition str_int :: "int \<Rightarrow> string" where
  "str_int i = (if i < 0 then CHR ''-'' # str_nat (nat (- i)) else str_nat (nat i))"

definition str_opt_int :: "int option \<Rightarrow> string" where
  "str_opt_int a = (case a of None \<Rightarrow> ''None'' | Some i \<Rightarrow> str_int i)"

definition str_opt :: "string option \<Rightarrow> string" where
  "str_opt a = (case a of None \<Rightarrow> ''None'' | Some s \<Rightarrow> s)"

text \<open>
  \<open>int(s)\<close> on a stripped string: an optional sign, then decimal digits in which single
  underscores may stand between two digits. \<open>None\<close> is the \<open>ValueError\<close>. (CPython also
  raises \<open>ValueError\<close> for more than 4300 digits; such a number is far above every bound
  it is compared with here.)
\<close>

fun int_body :: "bool \<Rightarrow> nat \<Rightarrow> string \<Rightarrow> nat option" where
  "int_body prev acc [] = (if prev then Some acc else None)"
| "int_body prev acc (c # cs) =
     (if is_digit c then int_body True (10 * acc + (of_char c - 48)) cs
      else if c = CHR ''_'' \<and> prev then int_body False acc cs
      else None)"

fun py_int :: "string \<Rightarrow> int option" where
  "py_int [] = None"
| "py_int (c # cs) =
     (if c = CHR ''-'' then map_option (\<lambda>n. - int n) (int_body False 0 cs)
      else if c = CHR ''+'' then map_option int (int_body False 0 cs)
      else map_option int (int_body False 0 (c # cs)))"


section \<open>Symbols of the reply texts\<close>

definition bullet :: string where
  "bullet = [CHR 0xE2, CHR 0x80, CHR 0xA2]"

definition emoji_arrow :: string where
  "emoji_arrow = [CHR 0xE2, CHR 0x9E, CHR 0xA1]"

definition emoji_books :: string where
  "emoji_books = [CHR 0xF0, CHR 0x9F, CHR 0x93, CHR 0x9A]"

definition emoji_briefcase :: string where
  "emoji_briefcase = [CHR 0xF0, CHR 0x9F, CHR 0x92, CHR 0xBC]"

definition emoji_cap :: string where
  "emoji_cap = [CHR 0xF0, CHR 0x9F, CHR 0x8E, CHR 0x93]"

definition emoji_car :: string where
  "emoji_car = [CHR 0xF0, CHR 0x9F, CHR 0x9A, CHR 0x97]"

definition emoji_chart :: string where
  "emoji_chart = [CHR 0xF0, CHR 0x9F, CHR 0x93, CHR 0x88]"

definition emoji_chocolate :: string where
  "emoji_chocolate = [CHR 0xF0, CHR 0x9F, CHR 0x8D, CHR 0xAB]"

definition emoji_globe :: string where
  "emoji_globe = [CHR 0xF0, CHR 0x9F, CHR 0x8C, CHR 0x8D]"

definition emoji_memo :: string where
  "emoji_memo = [CHR 0xF0, CHR 0x9F, CHR 0x93, CHR 0x9D]"

definition emoji_multiply :: string where
  "emoji_multiply = [CHR 0xE2, CHR 0x9C, CHR 0x96]"

definition emoji_open_book :: string where
  "emoji_open_book = [CHR 0xF0, CHR 0x9F, CHR 0x93, CHR 0x96]"

definition emoji_party :: string where
  "emoji_party = [CHR 0xF0, CHR 0x9F, CHR 0x8E, CHR 0x89]"

definition emoji_pencil :: string where
  "emoji_pencil = [CHR 0xE2, CHR 0x9C, CHR 0x8F]"

definition emoji_pizza :: string where
  "emoji_pizza = [CHR 0xF0, CHR 0x9F, CHR 0x8D, CHR 0x95]"

definition emoji_plus :: string where
  "emoji_plus = [CHR 0xE2, CHR 0x9E, CHR 0x95]"

definition emoji_point :: string where
  "emoji_point = [CHR 0xF0, CHR 0x9F, CHR 0x91, CHR 0x89]"

definition emoji_question :: string where
  "emoji_question = [CHR 0xE2, CHR 0x9D, CHR 0x93]"

definition emoji_robot :: string where
  "emoji_robot = [CHR 0xF0, CHR 0x9F, CHR 0xA4, CHR 0x96]"

definition emoji_rocket :: string where
  "emoji_rocket = [CHR 0xF0, CHR 0x9F, CHR 0x9A, CHR 0x80]"

definition emoji_seedling :: string where
  "emoji_seedling = [CHR 0xF0, CHR 0x9F, CHR 0x8C, CHR 0xB1]"

definition emoji_smile :: string where
  "emoji_smile = [CHR 0xF0, CHR 0x9F, CHR 0x98, CHR 0x8A]"

definition emoji_star :: string where
  "emoji_star = [CHR 0xF0, CHR 0x9F, CHR 0x8C, CHR 0x9F]"

definition emoji_sun :: string where
  "emoji_sun = [CHR 0xF0, CHR 0x9F, CHR 0x8C, CHR 0x9E]"

definition emoji_wave :: string where
  "emoji_wave = [CHR 0xF0, CHR 0x9F, CHR 0x91, CHR 0x8B]"

definition emoji_wrench :: string where
  "emoji_wrench = [CHR 0xF0, CHR 0x9F, CHR 0x94, CHR 0xA7]"

definition times_sign :: string where
  "times_sign = [CHR 0xC3, CHR 0x97]"

definition variation_selector :: string where
  "variation_selector = [CHR 0xEF, CHR 0xB8, CHR 0x8F]"

section \<open>Failures and the outside world\<close>

text \<open>
  A raised exception is a value; \<open>str(e)\<close> is its message. \<open>APIError\<close> stands for whatever
  the remote text generation client raises.
\<close>

datatype exn = Exception string | TypeError string | IndexError string | APIError string

fun exn_str :: "exn \<Rightarrow> string" where
  "exn_str (Exception m) = m"
| "exn_str (TypeError m) = m"
| "exn_str (IndexError m) = m"
| "exn_str (APIError m) = m"

text \<open>
  The outcome of one \<open>client.chat.completions.create\<close> call: it raises, or it returns a
  response whose \<open>choices\<close> list carries the \<open>message.content\<close> of each choice (which may be
  \<open>None\<close>).
\<close>

datatype remote_result = Raises exn | Response "string option list"

text \<open>
  What one turn takes from outside the program: the two regular-expression passes of
  \<open>format_for_whatsapp\<close> (total functions on text, built from \<open>re.sub\<close> alone; no
  result below depends on what they do to a text), the interpreter's \<open>hash\<close> on strings,
  the clock read by \<open>datetime.utcnow\<close>, and the outcomes of the remote calls: the
  connection test of \<open>initialize\<close> and the lesson request, which is given the system
  and the user prompt.
\<close>

record env =
  apply_whatsapp_formatting :: "string \<Rightarrow> string"
  improve_readability :: "string \<Rightarrow> string"
  hash :: "string \<Rightarrow> int"
  utcnow :: nat
  remote_test :: remote_result
  remote_lesson :: "string \<Rightarrow> string \<Rightarrow> remote_result"

section \<open>utils.py\<close>

definition format_for_whatsapp :: "env \<Rightarrow> string \<Rightarrow> int option \<Rightarrow> string" where
  "format_for_whatsapp env text age_group =
     improve_readability env (apply_whatsapp_formatting env text)"

definition validate_age :: "string \<Rightarrow> int option" where
  "validate_age age_input =
     (case py_int (strip age_input) of
        None \<Rightarrow> None
      | Some age \<Rightarrow> if 3 \<le> age \<and> age \<le> 100 then Some age else None)"

definition subject_mapping :: "(string \<times> string) list" where
  "subject_mapping =
     [(''math'', ''Mathematics''),
      (''maths'', ''Mathematics''),
      (''mathematics'', ''Mathematics''),
      (''science'', ''Science''),
      (''english'', ''English''),
      (''history'', ''History''),
      (''geography'', ''Geography''),
      (''physics'', ''Physics''),
      (''chemistry'', ''Chemistry''),
      (''biology'', ''Biology''),
      (''literature'', ''Literature''),
      (''art'', ''Art''),
      (''music'', ''Music''),
      (''pe'', ''Physical Education''),
      (''sports'', ''Sports''),
      (''computer'', ''Computer Science''),
      (''programming'', ''Programming''),
      (''coding'', ''Programming'')]"

fun collect_subjects :: "string list \<Rightarrow> string list" where
  "collect_subjects [] = []"
| "collect_subjects (piece # rest) =
     (let subject = lower (strip piece) in
      case map_of subject_mapping subject of
        Some canonical \<Rightarrow> canonical # collect_subjects rest
      | None \<Rightarrow> if length subject > 2 then title subject # collect_subjects rest
                else collect_subjects rest)"

definition validate_subjects :: "string \<Rightarrow> string list" where
  "validate_subjects subjects_input =
     (if subjects_input = [] then []
      else take 10 (collect_subjects (split_on CHR '','' subjects_input)))"

text \<open>
  The pattern \<open>^[A-Za-z\s'-]+$\<close> on a stripped, non-empty text: every character is a
  letter, whitespace, an apostrophe or a hyphen.
\<close>

definition country_char :: "char \<Rightarrow> bool" where
  "country_char c = (is_alpha c \<or> is_space c \<or> c = CHR 0x27 \<or> c = CHR ''-'')"

definition validate_country :: "string \<Rightarrow> string option" where
  "validate_country country_input =
     (if country_input = [] \<or> length (strip country_input) < 2 then None
      else let country = title (strip country_input) in
        if country \<noteq> [] \<and> list_all country_char country then Some country else None)"

definition validate_learning_mode :: "string \<Rightarrow> string option" where
  "validate_learning_mode mode_input =
     (let mode = lower (strip mode_input) in
      if mode \<in> set [''text'', ''reading'', ''written''] then Some ''text''
      else if mode \<in> set [''audio'', ''voice'', ''spoken'', ''listening''] then Some ''audio''
      else None)"

definition base_commands :: string where
  "base_commands = concat
     [''\<newline>'',
      emoji_robot, '' *WhatsApp AI Tutor Commands*\<newline>'',
      ''\<newline>'',
      emoji_books, '' `/lesson <topic>` - Get a lesson on any topic\<newline>'',
      emoji_arrow, variation_selector, '' `/next` - Continue to next part of lesson\<newline>'',
      emoji_question, '' `/help` - Show this help message\<newline>'',
      ''\<newline>'',
      ''*Examples:*\<newline>'',
      bullet, '' /lesson fractions\<newline>'',
      bullet, '' /lesson photosynthesis  \<newline>'',
      bullet, '' /lesson world war 2\<newline>'']"

definition tips_little_learners :: string where
  "tips_little_learners = concat
     [''\<newline>'',
      emoji_star, '' *Tips for little learners:*\<newline>'',
      bullet, '' Ask about anything you're curious about!\<newline>'',
      bullet, '' Try topics like: animals, colors, shapes, numbers\<newline>'',
      bullet, '' I'll make it super fun and easy! '', emoji_party, ''\<newline>'']"

definition tips_study :: string where
  "tips_study = concat
     [''\<newline>'',
      emoji_open_book, '' *Study Tips:*\<newline>'',
      bullet, '' Try school subjects: math, science, history\<newline>'',
      bullet, '' Ask about homework topics\<newline>'',
      bullet, '' Practice questions help you learn better! '', emoji_pencil, variation_selector, ''\<newline>'']"

definition tips_study_smart :: string where
  "tips_study_smart = concat
     [''\<newline>'',
      emoji_cap, '' *Study Smart:*\<newline>'',
      bullet, '' Get help with exam topics\<newline>'',
      bullet, '' Ask for explanations of difficult concepts\<newline>'',
      bullet, '' Perfect for homework and test prep '', emoji_memo, ''\<newline>'']"

definition tips_professional :: string where
  "tips_professional = concat
     [''\<newline>'',
      emoji_briefcase, '' *Professional Learning:*\<newline>'',
      bullet, '' Explore any topic of interest\<newline>'',
      bullet, '' Get clear, structured explanations\<newline>'',
      bullet, '' Perfect for skill development and knowledge growth '', emoji_chart, ''\<newline>'']"

text \<open>
  Comparing a missing age with a number raises \<open>TypeError\<close>; the age column is nullable,
  so every comparison of an age is written with its failure.
\<close>

definition none_le_int :: exn where
  "none_le_int = TypeError (concat
     [[CHR 0x27], ''<='', [CHR 0x27], '' not supported between instances of '',
      [CHR 0x27], ''NoneType'', [CHR 0x27], '' and '', [CHR 0x27], ''int'', [CHR 0x27]])"

definition get_help_message :: "env \<Rightarrow> int option \<Rightarrow> exn + string" where
  "get_help_message env age_group =
     (case age_group of
        None \<Rightarrow> Inl none_le_int
      | Some a \<Rightarrow>
          let additional =
            (if a \<le> 8 then tips_little_learners
             else if a \<le> 12 then tips_study
             else if a \<le> 16 then tips_study_smart
             else tips_professional)
          in Inr (format_for_whatsapp env (base_commands @ additional) age_group))"

text \<open>
  \<open>re.match(r'/lesson\s+(.+)', message.strip(), re.IGNORECASE)\<close>: the command token in
  any letter case, at least one whitespace character, then the rest of that line (the
  dot stops at a line feed). The subject is stripped, so the whitespace run is
  followed by a character that is not whitespace whenever anything follows it.
\<close>

definition parse_lesson_command :: "string \<Rightarrow> string option" where
  "parse_lesson_command message =
     (let s = strip message; rest = drop 7 s; after = dropWhile is_space rest in
      if lower (take 7 s) = ''/lesson'' \<and> length after < length rest \<and> after \<noteq> []
      then Some (strip (takeWhile (\<lambda>c. c \<noteq> CHR 0x0A) after))
      else None)"

definition get_greeting_emoji :: "int option \<Rightarrow> exn + string" where
  "get_greeting_emoji age_group =
     (case age_group of
        None \<Rightarrow> Inl none_le_int
      | Some a \<Rightarrow>
          Inr (if a \<le> 8 then emoji_star
               else if a \<le> 12 then emoji_books
               else if a \<le> 16 then emoji_cap
               else emoji_wave))"

text \<open>
  \<open>json.dumps\<close> of a list of strings: each string between double quotes, with the quote,
  the backslash and everything outside the printable ASCII range escaped.
\<close>

definition hex_digit :: "nat \<Rightarrow> char" where
  "hex_digit n = (if n < 10 then char_of (48 + n) else char_of (87 + n))"

definition json_escape_char :: "char \<Rightarrow> string" where
  "json_escape_char c =
     (let n = (of_char c :: nat) in
      if c = CHR 0x22 then [CHR 0x5C, CHR 0x22]
      else if c = CHR 0x5C then [CHR 0x5C, CHR 0x5C]
      else if n = 10 then [CHR 0x5C, CHR ''n'']
      else if n = 13 then [CHR 0x5C, CHR ''r'']
      else if n = 9 then [CHR 0x5C, CHR ''t'']
      else if n = 12 then [CHR 0x5C, CHR ''f'']
      else if n = 8 then [CHR 0x5C, CHR ''b'']
      else if 32 \<le> n \<and> n \<le> 126 then [c]
      else [CHR 0x5C] @ ''u00'' @ [hex_digit (n div 16), hex_digit (n mod 16)])"

definition store_subjects_as_json :: "string list \<Rightarrow> string" where
  "store_subjects_as_json subjects =
     ''['' @ join '', '' (map (\<lambda>s. [CHR 0x22] @ concat (map json_escape_char s) @ [CHR 0x22]) subjects) @ '']''"


section \<open>db.py\<close>

text \<open>
  The two tables. A nullable column is an \<open>option\<close>; the primary keys and the
  timestamps are natural numbers. The session commits inside every operation, so
  an operation takes the store and returns the store after its commit.
\<close>

record user =
  u_id :: nat
  phone_number :: string
  name :: "string option"
  age :: "int option"
  country :: "string option"
  preferred_subjects :: "string option"
  learning_mode :: "string option"
  language :: string
  onboarding_step :: string
  is_onboarded :: bool
  u_created_at :: nat
  u_updated_at :: nat

record progress =
  p_id :: nat
  user_id :: nat
  topic :: string
  lesson_content :: string
  lesson_step :: int
  total_steps :: int
  completed :: bool
  score :: "int option"
  p_created_at :: nat
  p_updated_at :: nat

record store =
  users :: "user list"
  progress_rows :: "progress list"

text \<open>The key of a new row: one more than the largest key of the table.\<close>

definition next_id :: "nat list \<Rightarrow> nat" where
  "next_id ids = Suc (fold max ids 0)"

definition get_user_by_phone :: "store \<Rightarrow> string \<Rightarrow> user option" where
  "get_user_by_phone db phone = find (\<lambda>u. phone_number u = phone) (users db)"

definition create_user :: "env \<Rightarrow> store \<Rightarrow> string \<Rightarrow> user \<times> store" where
  "create_user env db phone =
     (let user = \<lparr>u_id = next_id (map u_id (users db)), phone_number = phone,
                   name = None, age = None, country = None, preferred_subjects = None,
                   learning_mode = None, language = ''en'', onboarding_step = ''name'',
                   is_onboarded = False, u_created_at = utcnow env, u_updated_at = utcnow env\<rparr>
      in (user, db\<lparr>users := users db @ [user]\<rparr>))"

text \<open>
  The keyword arguments of \<open>update_user\<close> and \<open>update_progress\<close>: one constructor for each
  attribute a caller sets.
\<close>

datatype user_attr =
    Name string | Age int | Country string | Preferred_subjects string
  | Learning_mode string | Language string | Is_onboarded bool | Onboarding_step string

fun set_user_attr :: "user_attr \<Rightarrow> user \<Rightarrow> user" where
  "set_user_attr (Name v) u = u\<lparr>name := Some v\<rparr>"
| "set_user_attr (Age v) u = u\<lparr>age := Some v\<rparr>"
| "set_user_attr (Country v) u = u\<lparr>country := Some v\<rparr>"
| "set_user_attr (Preferred_subjects v) u = u\<lparr>preferred_subjects := Some v\<rparr>"
| "set_user_attr (Learning_mode v) u = u\<lparr>learning_mode := Some v\<rparr>"
| "set_user_attr (Language v) u = u\<lparr>language := v\<rparr>"
| "set_user_attr (Is_onboarded v) u = u\<lparr>is_onboarded := v\<rparr>"
| "set_user_attr (Onboarding_step v) u = u\<lparr>onboarding_step := v\<rparr>"

definition update_user :: "env \<Rightarrow> store \<Rightarrow> user \<Rightarrow> user_attr list \<Rightarrow> user \<times> store" where
  "update_user env db user kwargs =
     (let change = (\<lambda>u. (fold set_user_attr kwargs u)\<lparr>u_updated_at := utcnow env\<rparr>)
      in (change user,
          db\<lparr>users := map (\<lambda>u. if u_id u = u_id user then change u else u) (users db)\<rparr>))"

definition create_progress ::
  "env \<Rightarrow> store \<Rightarrow> nat \<Rightarrow> string \<Rightarrow> string \<Rightarrow> int \<Rightarrow> progress \<times> store" where
  "create_progress env db uid topic_text content steps =
     (let row = \<lparr>p_id = next_id (map p_id (progress_rows db)), user_id = uid,
                  topic = topic_text, lesson_content = content, lesson_step = 1,
                  total_steps = steps, completed = False, score = None,
                  p_created_at = utcnow env, p_updated_at = utcnow env\<rparr>
      in (row, db\<lparr>progress_rows := progress_rows db @ [row]\<rparr>))"

text \<open>
  \<open>order_by(created_at.desc()).first()\<close>: a row with the largest creation time, the
  earliest such row of the table when several share it (SQL leaves that choice open).
\<close>

fun newest :: "progress list \<Rightarrow> progress option" where
  "newest [] = None"
| "newest (p # ps) =
     (case newest ps of
        None \<Rightarrow> Some p
      | Some q \<Rightarrow> if p_created_at p < p_created_at q then Some q else Some p)"

definition get_current_lesson :: "store \<Rightarrow> nat \<Rightarrow> progress option" where
  "get_current_lesson db uid =
     newest (filter (\<lambda>p. user_id p = uid \<and> \<not> completed p) (progress_rows db))"

datatype progress_attr = Lesson_step int | Lesson_content string

fun set_progress_attr :: "progress_attr \<Rightarrow> progress \<Rightarrow> progress" where
  "set_progress_attr (Lesson_step v) p = p\<lparr>lesson_step := v\<rparr>"
| "set_progress_attr (Lesson_content v) p = p\<lparr>lesson_content := v\<rparr>"

definition update_progress ::
  "env \<Rightarrow> store \<Rightarrow> progress \<Rightarrow> progress_attr list \<Rightarrow> progress \<times> store" where
  "update_progress env db row kwargs =
     (let change = (\<lambda>p. (fold set_progress_attr kwargs p)\<lparr>p_updated_at := utcnow env\<rparr>)
      in (change row,
          db\<lparr>progress_rows :=
                map (\<lambda>p. if p_id p = p_id row then change p else p) (progress_rows db)\<rparr>))"

section \<open>llm.py\<close>

text \<open>
  The process-wide \<open>LLMService\<close>: the key read from the environment at start-up,
  whether a client object has been built, and the \<open>_initialized\<close> flag.
\<close>

record llm_service =
  api_key :: "string option"
  client :: bool
  initialized :: bool

definition new_llm_service :: "string option \<Rightarrow> llm_service" where
  "new_llm_service key = \<lparr>api_key = key, client = False, initialized = False\<rparr>"

text \<open>Truth value of an optional string: \<open>None\<close> and the empty string are false.\<close>

definition truthy :: "string option \<Rightarrow> bool" where
  "truthy s = (s \<noteq> None \<and> s \<noteq> Some [])"

text \<open>
  \<open>initialize\<close> returns at once when the service is initialised, raises when the key
  is missing, and otherwise builds the client and tests the connection; whatever
  fails in that test is raised again under a new message. Building the client object
  itself is taken not to fail.
\<close>

definition connection_test :: "env \<Rightarrow> exn + unit" where
  "connection_test env =
     (case remote_test env of
        Raises e \<Rightarrow> Inl e
      | Response choices \<Rightarrow>
          (case choices of
             [] \<Rightarrow> Inl (IndexError ''list index out of range'')
           | content # _ \<Rightarrow>
               if truthy content then Inr ()
               else Inl (Exception ''No response from OpenRouter API'')))"

definition initialize :: "env \<Rightarrow> llm_service \<Rightarrow> (exn + unit) \<times> llm_service" where
  "initialize env s =
     (if initialized s then (Inr (), s)
      else if \<not> truthy (api_key s) then
        (Inl (Exception ''OpenRouter API key is required. Please set OPENROUTER_API_KEY environment variable.''), s)
      else
        (case connection_test env of
           Inr _ \<Rightarrow> (Inr (), s\<lparr>client := True, initialized := True\<rparr>)
         | Inl e \<Rightarrow>
             (Inl (Exception (''OpenRouter initialization failed: '' @ exn_str e)),
              s\<lparr>client := True\<rparr>)))"

definition style_guide :: "int \<Rightarrow> string" where
  "style_guide age_group =
     (if age_group \<le> 8 then ''Use very simple words, short sentences, and examples with toys, animals, or games''
      else if age_group \<le> 12 then ''Use simple language, clear examples, and everyday situations like school or home''
      else if age_group \<le> 16 then ''Use clear explanations with relatable examples and real-world situations''
      else ''Use detailed explanations with comprehensive examples and professional contexts'')"

definition system_prompt :: "string \<Rightarrow> int \<Rightarrow> string" where
  "system_prompt topic_text age_group = concat
     [''You are an expert educator and tutor.\<newline>'',
      ''Your goal is to teach a topic clearly and concisely so that the learner fully understands it.\<newline>'',
      ''\<newline>'',
      ''Instructions:\<newline>'',
      ''- Topic: '', topic_text, ''\<newline>'',
      ''- Age group: '', str_int age_group, '' years old\<newline>'',
      ''- Length: Keep it short and focused (150-200 words max).\<newline>'',
      ''- Style: '', style_guide age_group, ''.\<newline>'',
      ''- Structure:\<newline>'',
      ''   1. Brief introduction\<newline>'',
      ''   2. Key explanation (step by step, or definition + example)\<newline>'',
      ''   3. Real-life analogy or story that makes it easy to remember\<newline>'',
      ''   4. One simple practice question at the end\<newline>'',
      ''\<newline>'',
      ''Make sure the explanation is **accurate**, **easy to follow**, and **age-appropriate**.'']"

definition user_prompt :: "string \<Rightarrow> string option \<Rightarrow> string" where
  "user_prompt topic_text user_name =
     (let greeting = (if truthy user_name then ''Hey '' @ str_opt user_name @ ''! '' else [])
      in greeting @ ''Please teach me about '' @ topic_text @ ''.'')"

definition create_lesson_prompt ::
  "string \<Rightarrow> int option \<Rightarrow> string option \<Rightarrow> exn + string \<times> string" where
  "create_lesson_prompt topic_text age_group user_name =
     (case age_group of
        None \<Rightarrow> Inl none_le_int
      | Some a \<Rightarrow> Inr (system_prompt topic_text a, user_prompt topic_text user_name))"

definition lesson_fractions :: string where
  "lesson_fractions = concat
     [''\<newline>'',
      ''Fractions are a way of showing parts of a whole! '', emoji_pizza, ''\<newline>'',
      ''\<newline>'',
      ''Imagine you cut a pizza into 4 equal slices. If you eat 1 slice, that's 1/4 of the pizza. The number on top (numerator) shows how many parts you have. The number on the bottom (denominator) shows how many equal parts the whole is divided into.\<newline>'',
      ''\<newline>'',
      ''Think of it like sharing chocolate with friends. If you break a bar into 8 pieces and keep 3, you have 3/8 of the bar! '', emoji_chocolate, ''\<newline>'',
      ''\<newline>'',
      emoji_point, '' Practice: If you have 12 apples and eat 6, what fraction of the apples did you eat?\<newline>'',
      ''            '']"

definition lesson_addition :: string where
  "lesson_addition = concat
     [''\<newline>'',
      ''Addition means putting numbers together! '', emoji_plus, ''\<newline>'',
      ''\<newline>'',
      ''When we add, we combine groups of things. Like if you have 3 apples and I give you 2 more apples, you now have 5 apples total! We write this as 3 + 2 = 5.\<newline>'',
      ''\<newline>'',
      ''Think of addition like collecting toys. If you have 4 toy cars and find 3 more, you now have 7 toy cars! '', emoji_car, ''\<newline>'',
      ''\<newline>'',
      emoji_point, '' Practice: If you have 6 stickers and get 4 more, how many stickers do you have in total?\<newline>'',
      ''            '']"

definition lesson_photosynthesis :: string where
  "lesson_photosynthesis = concat
     [''\<newline>'',
      ''Photosynthesis is how plants make their own food! '', emoji_seedling, ''\<newline>'',
      ''\<newline>'',
      ''Plants are like little chefs that use sunlight, water, and air to cook up their meals. They take in sunlight through their leaves, drink water through their roots, and breathe in carbon dioxide from the air.\<newline>'',
      ''\<newline>'',
      ''Think of leaves as tiny solar panels that capture sunlight and turn it into energy. This process also makes oxygen - the air we breathe! That's why plants are so important for life on Earth.\<newline>'',
      ''\<newline>'',
      emoji_point, '' Practice: What three things do plants need for photosynthesis?\<newline>'',
      ''            '']"

definition lesson_multiplication :: string where
  "lesson_multiplication = concat
     [''\<newline>'',
      ''Multiplication is like super-fast addition! '', emoji_multiply, variation_selector, ''\<newline>'',
      ''\<newline>'',
      ''Instead of adding the same number over and over, we can multiply. If you have 3 groups of 4 apples each, that's 3 '', times_sign, '' 4 = 12 apples total. It's much faster than adding 4 + 4 + 4!\<newline>'',
      ''\<newline>'',
      ''Think of multiplication tables like recipes. Just like a cookie recipe might say '', [CHR 0x22], ''makes 24 cookies,'', [CHR 0x22], '' multiplication tells us how many we get when we have groups of the same size.\<newline>'',
      ''\<newline>'',
      emoji_point, '' Practice: If you have 5 bags with 6 marbles each, how many marbles do you have in total?\<newline>'',
      ''            '']"

definition lesson_solar_system :: string where
  "lesson_solar_system = concat
     [''\<newline>'',
      ''Our solar system is like a cosmic neighborhood! '', emoji_sun, ''\<newline>'',
      ''\<newline>'',
      ''The Sun is at the center, and eight planets orbit around it like runners on a track. Mercury is closest and hottest, while Neptune is farthest and coldest. Earth is in the perfect spot - not too hot, not too cold - just right for life!\<newline>'',
      ''\<newline>'',
      ''Think of the solar system like a giant merry-go-round with the Sun in the middle. Each planet takes a different amount of time to complete one trip around the Sun - that's what we call a year!\<newline>'',
      ''\<newline>'',
      emoji_point, '' Practice: Which planet is closest to the Sun?\<newline>'',
      ''            '']"

definition fallback_lessons :: "(string \<times> string) list" where
  "fallback_lessons =
     [(''fractions'', lesson_fractions),
      (''addition'', lesson_addition),
      (''photosynthesis'', lesson_photosynthesis),
      (''multiplication'', lesson_multiplication),
      (''solar system'', lesson_solar_system)]"

definition generic_lesson :: "string \<Rightarrow> string" where
  "generic_lesson topic_text = concat
     [''\<newline>'',
      ''I'd love to teach you about '', topic_text, ''! '', emoji_books, ''\<newline>'',
      ''\<newline>'',
      topic_text, '' is an interesting subject that helps us understand the world better. While I'm having trouble generating a detailed lesson right now, I encourage you to explore this topic further.\<newline>'',
      ''\<newline>'',
      ''Think about how '', topic_text, '' might relate to things you see every day. Learning becomes easier when we connect new ideas to things we already know!\<newline>'',
      ''\<newline>'',
      emoji_point, '' Practice: Can you think of one way '', topic_text, '' might be useful in everyday life?\<newline>'',
      ''\<newline>'',
      ''Try asking me again, or ask for help with a specific part of '', topic_text, '' that interests you most!\<newline>'',
      ''        '']"

text \<open>The loop over the dictionary, in the order its keys are written.\<close>

fun lookup_fallback :: "(string \<times> string) list \<Rightarrow> string \<Rightarrow> string option" where
  "lookup_fallback [] topic_lower = None"
| "lookup_fallback ((key, text) # rest) topic_lower =
     (if contains key topic_lower then Some (strip text) else lookup_fallback rest topic_lower)"

definition get_fallback_lesson :: "string \<Rightarrow> int option \<Rightarrow> string" where
  "get_fallback_lesson topic_text age_group =
     (case lookup_fallback fallback_lessons (lower topic_text) of
        Some text \<Rightarrow> text
      | None \<Rightarrow> strip (generic_lesson topic_text))"

text \<open>
  \<open>generate_lesson\<close>. The call of \<open>initialize\<close> and the construction of the prompts
  stand before the \<open>try\<close>, so what they raise leaves the function; everything the
  remote call raises, an empty answer and an answer of fewer than 50 characters end
  in the fallback lesson.
\<close>

definition remote_lesson_text :: "remote_result \<Rightarrow> exn + string" where
  "remote_lesson_text r =
     (case r of
        Raises e \<Rightarrow> Inl e
      | Response choices \<Rightarrow>
          (case choices of
             [] \<Rightarrow> Inl (Exception ''No content received from DeepSeek'')
           | content # _ \<Rightarrow>
               if truthy content then
                 (let stripped = strip (str_opt content) in
                  if length stripped < 50 then Inl (Exception ''Generated content too short'')
                  else Inr stripped)
               else Inl (Exception ''No content received from DeepSeek'')))"

definition generate_lesson ::
  "env \<Rightarrow> llm_service \<Rightarrow> string \<Rightarrow> int option \<Rightarrow> string option \<Rightarrow> (exn + string) \<times> llm_service" where
  "generate_lesson env s topic_text age_group user_name =
     (case (if \<not> initialized s then initialize env s else (Inr (), s)) of
        (Inl e, s1) \<Rightarrow> (Inl e, s1)
      | (Inr _, s1) \<Rightarrow>
          if \<not> initialized s1 \<or> \<not> client s1 then
            (Inr (get_fallback_lesson topic_text age_group), s1)
          else
            (case create_lesson_prompt topic_text age_group user_name of
               Inl e \<Rightarrow> (Inl e, s1)
             | Inr (sys_prompt, usr_prompt) \<Rightarrow>
                 (case remote_lesson_text (remote_lesson env sys_prompt usr_prompt) of
                    Inr generated \<Rightarrow> (Inr generated, s1)
                  | Inl e \<Rightarrow> (Inr (get_fallback_lesson topic_text age_group), s1))))"

section \<open>handlers.py\<close>

text \<open>
  The state a turn works on: the database and the process-wide lesson service. A
  handler returns its reply, or the exception that leaves it, together with the
  state as it is at that moment: what has been committed stays committed.
\<close>

record world =
  db :: store
  llm :: llm_service

definition onboarding_steps :: "(string \<times> string) list" where
  "onboarding_steps =
     [(''name'', ''What should I call you? '' @ emoji_smile),
      (''age'', ''How old are you? (This helps me adjust lessons for you)''),
      (''country'', ''Which country are you from?''),
      (''subjects'', ''What subjects interest you? (e.g., math, science, history - separate with commas)''),
      (''learning_mode'', concat
     [''Do you prefer learning through '', [CHR 0x22], ''text'', [CHR 0x22], '' or would you like '', [CHR 0x22], ''audio'', [CHR 0x22], '' lessons in the future?'']),
      (''language'', concat
     [''What language would you like to learn in? (Currently supporting English - just type '', [CHR 0x22], ''english'', [CHR 0x22], '' or '', [CHR 0x22], ''en'', [CHR 0x22], '')''])]"

text \<open>\<open>self.onboarding_steps[key]\<close> for the keys the handlers use, all of them present.\<close>

definition prompt_for :: "string \<Rightarrow> string" where
  "prompt_for key = (case map_of onboarding_steps key of Some text \<Rightarrow> text | None \<Rightarrow> [])"

definition technical_difficulties :: string where
  "technical_difficulties = concat
     [''Sorry, I'm having some technical difficulties right now. Please try again in a moment! '', emoji_wrench]"

text \<open>The reply texts of the onboarding steps.\<close>

definition greeting :: "string \<Rightarrow> string" where
  "greeting emoji = concat
     [''Welcome to your AI Tutor! '', emoji, '' \<newline>'',
      ''\<newline>'',
      ''I'm here to help you learn anything you're curious about through fun, personalized lessons!\<newline>'',
      ''\<newline>'']"

definition start_over_reply :: string where
  "start_over_reply = ''Something went wrong with onboarding. Let me help you start over! What's your name?''"

definition name_reprompt :: string where
  "name_reprompt = ''Please enter a name between 1 and 50 characters. What should I call you?''"

definition name_reply :: "string \<Rightarrow> string \<Rightarrow> string" where
  "name_reply stripped emoji = concat
     [''Nice to meet you, '', stripped, ''! '', emoji, ''\<newline>'',
      ''\<newline>'',
      prompt_for ''age'']"

definition age_reprompt :: string where
  "age_reprompt = ''Please enter a valid age (between 3 and 100). How old are you?''"

definition age_reply :: "string \<Rightarrow> string" where
  "age_reply emoji = concat
     [''Got it! '', emoji, ''\<newline>'',
      ''\<newline>'',
      prompt_for ''country'']"

definition country_reprompt :: string where
  "country_reprompt = ''Please enter a valid country name. Which country are you from?''"

definition country_reply :: "string \<Rightarrow> string" where
  "country_reply c = concat
     [''Great! Welcome from '', c, ''! '', emoji_globe, ''\<newline>'',
      ''\<newline>'',
      prompt_for ''subjects'']"

definition subjects_reprompt :: string where
  "subjects_reprompt = ''Please enter at least one subject you're interested in (e.g., math, science, history):''"

definition subjects_reply :: "string \<Rightarrow> string" where
  "subjects_reply subjects_text = concat
     [''Awesome! I see you're interested in: '', subjects_text, '' '', emoji_books, ''\<newline>'',
      ''\<newline>'',
      prompt_for ''learning_mode'']"

definition learning_mode_reprompt :: string where
  "learning_mode_reprompt = concat
     [''Please choose either '', [CHR 0x22], ''text'', [CHR 0x22], '' for written lessons or '', [CHR 0x22], ''audio'', [CHR 0x22], '' for spoken lessons (audio coming soon!):'']"

definition learning_mode_reply :: "string \<Rightarrow> string" where
  "learning_mode_reply mode_text = concat
     [''Perfect! I'll provide '', mode_text, '' lessons. '', emoji_open_book, ''\<newline>'',
      ''\<newline>'',
      prompt_for ''language'']"

definition language_reprompt :: string where
  "language_reprompt = concat
     [''Currently I only support English. Please type '', [CHR 0x22], ''english'', [CHR 0x22], '' or '', [CHR 0x22], ''en'', [CHR 0x22], '' to continue:'']"

definition welcome_msg :: "user \<Rightarrow> string \<Rightarrow> string" where
  "welcome_msg user emoji = concat
     [''\<newline>'',
      emoji_party, '' *Welcome to your personalized AI Tutor, '', str_opt (name user), ''!* '', emoji, ''\<newline>'',
      ''\<newline>'',
      ''You're all set up! Here's what I know about you:\<newline>'',
      bullet, '' Age: '', str_opt_int (age user), ''\<newline>'',
      bullet, '' Country: '', str_opt (country user), ''\<newline>'',
      bullet, '' Learning mode: '', str_opt (learning_mode user), ''\<newline>'',
      ''\<newline>'',
      ''*Ready to learn? Try these commands:*\<newline>'',
      emoji_books, '' `/lesson <topic>` - Start learning any topic\<newline>'',
      emoji_question, '' `/help` - Get help and see all commands\<newline>'',
      ''\<newline>'',
      ''*Example:* Try typing `/lesson fractions` or `/lesson photosynthesis`\<newline>'',
      ''\<newline>'',
      ''What would you like to learn about first? '', emoji_rocket, ''\<newline>'',
      ''        '']"

text \<open>The reply texts of the commands.\<close>

definition specify_topic_reply :: string where
  "specify_topic_reply = concat
     [''Please specify a topic! For example: `/lesson fractions` or `/lesson photosynthesis` '', emoji_books]"

definition lesson_reply :: "string \<Rightarrow> string \<Rightarrow> string" where
  "lesson_reply t formatted_lesson = concat
     [emoji_books, '' *Lesson: '', title t, ''*\<newline>'',
      ''\<newline>'',
      formatted_lesson, ''\<newline>'',
      ''\<newline>'',
      ''_Type `/next` for more on this topic or `/lesson <new topic>` for something else!_'']"

definition lesson_failure_reply :: "string \<Rightarrow> string" where
  "lesson_failure_reply t = concat
     [''Sorry, I had trouble creating a lesson on '', t, ''. Please try a different topic or try again later! '', emoji_books]"

definition no_lessons_reply :: string where
  "no_lessons_reply = concat
     [''You don't have any lessons in progress. Start a new lesson with `/lesson <topic>`! '', emoji_books]"

definition follow_up :: "string \<Rightarrow> string" where
  "follow_up t = t @ '' - Advanced Concepts''"

definition next_reply :: "progress \<Rightarrow> string \<Rightarrow> string" where
  "next_reply current_lesson formatted_lesson = concat
     [emoji_books, '' *'', title (topic current_lesson), '' - Part '', str_int (lesson_step current_lesson), ''*\<newline>'',
      ''\<newline>'',
      formatted_lesson, ''\<newline>'',
      ''\<newline>'',
      ''_Type `/next` to continue or `/lesson <topic>` for something new!_'']"

definition next_failure_reply :: string where
  "next_failure_reply = concat
     [''Sorry, I had trouble preparing the next part. Try starting a new lesson with `/lesson <topic>`! '', emoji_books]"

definition suggestion :: "string \<Rightarrow> string" where
  "suggestion t = concat
     [''Great question! Let me teach you about '', t, ''. '', emoji_books, ''\<newline>'',
      ''\<newline>'',
      ''Try: `/lesson '', t, ''`\<newline>'',
      ''\<newline>'',
      ''Or type `/help` to see all available commands!'']"

definition responses :: "user \<Rightarrow> string list" where
  "responses user =
     [concat
     [''Hi '', str_opt (name user), ''! '', emoji_wave, '' I'm here to help you learn. Try `/lesson <topic>` to start learning something new!''],
      concat
     [''Hello! Ready to learn something interesting? Use `/lesson <topic>` or type `/help` for commands! '', emoji_books],
      concat
     [''Hey there! What would you like to learn about today? Type `/lesson <topic>` to get started! '', emoji_cap]]"

definition nudge_little :: "user \<Rightarrow> string" where
  "nudge_little user = concat
     [''Hi '', str_opt (name user), ''! '', emoji_star, '' Want to learn something fun? Try `/lesson colors` or `/lesson animals`!'']"

definition nudge_school :: "user \<Rightarrow> string" where
  "nudge_school user = concat
     [''Hey '', str_opt (name user), ''! '', emoji_books, '' Ready for a lesson? Try `/lesson fractions` or `/lesson dinosaurs`!'']"

text \<open>The onboarding steps.\<close>

definition process_name_step :: "env \<Rightarrow> world \<Rightarrow> user \<Rightarrow> string \<Rightarrow> (exn + string) \<times> world" where
  "process_name_step env w user message =
     (let stripped = strip message in
      if length stripped < 1 \<or> length stripped > 50 then
        (Inr name_reprompt, w)
      else
        (case update_user env (db w) user [Name stripped, Onboarding_step ''age''] of
           (user1, db1) \<Rightarrow>
             (case get_greeting_emoji (Some 25) of
                Inl e \<Rightarrow> (Inl e, w\<lparr>db := db1\<rparr>)
              | Inr emoji \<Rightarrow>
                  (Inr (name_reply stripped emoji),
                   w\<lparr>db := db1\<rparr>))))"

definition process_age_step :: "env \<Rightarrow> world \<Rightarrow> user \<Rightarrow> string \<Rightarrow> (exn + string) \<times> world" where
  "process_age_step env w user message =
     (case validate_age message of
        None \<Rightarrow> (Inr age_reprompt, w)
      | Some a \<Rightarrow>
          (case update_user env (db w) user [Age a, Onboarding_step ''country''] of
             (user1, db1) \<Rightarrow>
               (case get_greeting_emoji (Some a) of
                  Inl e \<Rightarrow> (Inl e, w\<lparr>db := db1\<rparr>)
                | Inr emoji \<Rightarrow>
                    (Inr (age_reply emoji),
                     w\<lparr>db := db1\<rparr>))))"

definition process_country_step :: "env \<Rightarrow> world \<Rightarrow> user \<Rightarrow> string \<Rightarrow> (exn + string) \<times> world" where
  "process_country_step env w user message =
     (case validate_country message of
        None \<Rightarrow> (Inr country_reprompt, w)
      | Some c \<Rightarrow>
          (case update_user env (db w) user [Country c, Onboarding_step ''subjects''] of
             (user1, db1) \<Rightarrow>
               (Inr (country_reply c),
                w\<lparr>db := db1\<rparr>)))"

definition process_subjects_step :: "env \<Rightarrow> world \<Rightarrow> user \<Rightarrow> string \<Rightarrow> (exn + string) \<times> world" where
  "process_subjects_step env w user message =
     (let subjects = validate_subjects message in
      if subjects = [] then
        (Inr subjects_reprompt, w)
      else
        (case update_user env (db w) user
                [Preferred_subjects (store_subjects_as_json subjects),
                 Onboarding_step ''learning_mode''] of
           (user1, db1) \<Rightarrow>
             (Inr (subjects_reply (join '', '' subjects)),
              w\<lparr>db := db1\<rparr>)))"

definition process_learning_mode_step ::
  "env \<Rightarrow> world \<Rightarrow> user \<Rightarrow> string \<Rightarrow> (exn + string) \<times> world" where
  "process_learning_mode_step env w user message =
     (case validate_learning_mode message of
        None \<Rightarrow> (Inr learning_mode_reprompt, w)
      | Some mode \<Rightarrow>
          (case update_user env (db w) user [Learning_mode mode, Onboarding_step ''language''] of
             (user1, db1) \<Rightarrow>
               (let mode_text = (if mode = ''text'' then ''text-based'' else ''audio-based'') in
                (Inr (learning_mode_reply mode_text),
                 w\<lparr>db := db1\<rparr>))))"

text \<open>
  The language step commits the completed profile first and reads the age for the
  greeting afterwards.
\<close>

definition process_language_step ::
  "env \<Rightarrow> world \<Rightarrow> user \<Rightarrow> string \<Rightarrow> (exn + string) \<times> world" where
  "process_language_step env w user message =
     (let lang = lower (strip message) in
      if lang \<notin> set [''english'', ''en'', ''eng''] then
        (Inr language_reprompt, w)
      else
        (case update_user env (db w) user
                [Language ''en'', Is_onboarded True, Onboarding_step ''completed''] of
           (user1, db1) \<Rightarrow>
             (case get_greeting_emoji (age user1) of
                Inl e \<Rightarrow> (Inl e, w\<lparr>db := db1\<rparr>)
              | Inr emoji \<Rightarrow>
                  (Inr (format_for_whatsapp env (welcome_msg user1 emoji) (age user1)),
                   w\<lparr>db := db1\<rparr>))))"

definition handle_onboarding ::
  "env \<Rightarrow> world \<Rightarrow> user \<Rightarrow> string \<Rightarrow> bool \<Rightarrow> (exn + string) \<times> world" where
  "handle_onboarding env w user message is_new_user =
     (let current_step = onboarding_step user in
      if is_new_user \<and> current_step = ''name'' \<and> \<not> truthy (name user) then
        (case get_greeting_emoji (Some 25) of
           Inl e \<Rightarrow> (Inl e, w)
         | Inr emoji \<Rightarrow>
             (Inr (greeting emoji @ prompt_for ''name''), w))
      else if current_step = ''name'' then process_name_step env w user message
      else if current_step = ''age'' then process_age_step env w user message
      else if current_step = ''country'' then process_country_step env w user message
      else if current_step = ''subjects'' then process_subjects_step env w user message
      else if current_step = ''learning_mode'' then process_learning_mode_step env w user message
      else if current_step = ''language'' then process_language_step env w user message
      else (Inr start_over_reply, w))"

definition handle_help_command :: "env \<Rightarrow> world \<Rightarrow> user \<Rightarrow> (exn + string) \<times> world" where
  "handle_help_command env w user = (get_help_message env (age user), w)"

text \<open>
  \<open>/lesson\<close>: the generation and the new row stand inside a \<open>try\<close> whose handler answers
  with an apology.
\<close>

definition handle_lesson_command ::
  "env \<Rightarrow> world \<Rightarrow> user \<Rightarrow> string \<Rightarrow> (exn + string) \<times> world" where
  "handle_lesson_command env w user message =
     (case parse_lesson_command message of
        None \<Rightarrow> (Inr specify_topic_reply, w)
      | Some t \<Rightarrow>
          if t = [] then (Inr specify_topic_reply, w)
          else
            (case generate_lesson env (llm w) t (age user) (name user) of
               (Inl e, llm1) \<Rightarrow>
                 (Inr (lesson_failure_reply t), w\<lparr>llm := llm1\<rparr>)
             | (Inr content, llm1) \<Rightarrow>
                 (case create_progress env (db w) (u_id user) t content 1 of
                    (row, db1) \<Rightarrow>
                      (let formatted_lesson = format_for_whatsapp env content (age user) in
                       (Inr (lesson_reply t formatted_lesson),
                        \<lparr>db = db1, llm = llm1\<rparr>)))))"

text \<open>
  \<open>/next\<close>: the row is written only after the follow-up lesson has been generated; the
  reply shows the step of the refreshed row.
\<close>

definition handle_next_command :: "env \<Rightarrow> world \<Rightarrow> user \<Rightarrow> (exn + string) \<times> world" where
  "handle_next_command env w user =
     (case get_current_lesson (db w) (u_id user) of
        None \<Rightarrow> (Inr no_lessons_reply, w)
      | Some current_lesson \<Rightarrow>
          (let follow_up_topic = follow_up (topic current_lesson) in
           case generate_lesson env (llm w) follow_up_topic (age user) (name user) of
             (Inl e, llm1) \<Rightarrow>
               (Inr next_failure_reply, w\<lparr>llm := llm1\<rparr>)
           | (Inr content, llm1) \<Rightarrow>
               (case update_progress env (db w) current_lesson
                       [Lesson_step (lesson_step current_lesson + 1), Lesson_content content] of
                  (row, db1) \<Rightarrow>
                    (let formatted_lesson = format_for_whatsapp env content (age user) in
                     (Inr (next_reply row formatted_lesson),
                      \<lparr>db = db1, llm = llm1\<rparr>)))))"

definition question_keywords :: "string list" where
  "question_keywords = [''what is'', ''how do'', ''how does'', ''explain'', ''teach me'', ''learn about'']"

text \<open>
  The loop over the keywords: the first keyword that occurs in the message and leaves
  a topic of more than three characters ends it.
\<close>

definition residual_topic :: "string \<Rightarrow> string \<Rightarrow> string" where
  "residual_topic keyword message_lower =
     strip (strip_chars (\<lambda>c. c = CHR ''?'') (remove_all keyword message_lower))"

fun scan_keywords :: "string list \<Rightarrow> string \<Rightarrow> string option" where
  "scan_keywords [] message_lower = None"
| "scan_keywords (keyword # rest) message_lower =
     (if contains keyword message_lower \<and> length (residual_topic keyword message_lower) > 3
      then Some (residual_topic keyword message_lower)
      else scan_keywords rest message_lower)"

definition handle_general_message ::
  "env \<Rightarrow> world \<Rightarrow> user \<Rightarrow> string \<Rightarrow> (exn + string) \<times> world" where
  "handle_general_message env w user message =
     (case scan_keywords question_keywords (lower message) of
        Some t \<Rightarrow> (Inr (suggestion t), w)
      | None \<Rightarrow>
          (case age user of
             None \<Rightarrow> (Inl none_le_int, w)
           | Some a \<Rightarrow>
               (let response =
                  (if a \<le> 8 then nudge_little user
                   else if a \<le> 12 then nudge_school user
                   else responses user !
                          nat (hash env (phone_number user) mod int (length (responses user))))
                in (Inr (format_for_whatsapp env response (age user)), w))))"

definition handle_regular_message ::
  "env \<Rightarrow> world \<Rightarrow> user \<Rightarrow> string \<Rightarrow> (exn + string) \<times> world" where
  "handle_regular_message env w user message =
     (let stripped = strip message in
      if startswith (lower stripped) ''/help'' then handle_help_command env w user
      else if startswith (lower stripped) ''/lesson'' then handle_lesson_command env w user stripped
      else if startswith (lower stripped) ''/next'' then handle_next_command env w user
      else handle_general_message env w user stripped)"

text \<open>
  The body of the \<open>try\<close> of \<open>process_message\<close>, and \<open>process_message\<close> itself, whose
  handler turns every exception into one fixed reply.
\<close>

definition handle_message :: "env \<Rightarrow> world \<Rightarrow> string \<Rightarrow> string \<Rightarrow> (exn + string) \<times> world" where
  "handle_message env w phone message =
     (case (case get_user_by_phone (db w) phone of
              None \<Rightarrow> (case create_user env (db w) phone of (user, db1) \<Rightarrow> (user, True, w\<lparr>db := db1\<rparr>))
            | Some user \<Rightarrow> (user, False, w)) of
        (user, is_new_user, w1) \<Rightarrow>
          if \<not> is_onboarded user then handle_onboarding env w1 user message is_new_user
          else handle_regular_message env w1 user message)"

definition process_message :: "env \<Rightarrow> world \<Rightarrow> string \<Rightarrow> string \<Rightarrow> string \<times> world" where
  "process_message env w phone message =
     (case handle_message env w phone message of
        (Inr reply, w1) \<Rightarrow> (reply, w1)
      | (Inl e, w1) \<Rightarrow> (technical_difficulties, w1))"

section \<open>Runs of the service\<close>

text \<open>
  The states the service reaches: it starts with empty tables and the lesson service
  in whatever state the start-up has left it, and every turn is one call of
  \<open>process_message\<close>, for any phone number and message and anything the outside world
  does in that turn.
\<close>

definition initial_world :: "string option \<Rightarrow> world" where
  "initial_world key = \<lparr>db = \<lparr>users = [], progress_rows = []\<rparr>, llm = new_llm_service key\<rparr>"

inductive reachable :: "world \<Rightarrow> bool" where
  start: "reachable \<lparr>db = \<lparr>users = [], progress_rows = []\<rparr>, llm = service\<rparr>"
| turn: "reachable w \<Longrightarrow> reachable (snd (process_message env w phone message))"


text \<open>
  The stores the service keeps: the keys of each table are distinct, and a user is
  flagged as onboarded exactly at the step \<open>completed\<close>.
\<close>

definition consistent :: "store \<Rightarrow> bool" where
  "consistent d =
     (distinct (map u_id (users d)) \<and> distinct (map p_id (progress_rows d))
      \<and> list_all (\<lambda>u. is_onboarded u = (onboarding_step u = ''completed'')) (users d))"

section \<open>Example states\<close>

text \<open>
  Concrete inputs at which the results below are instantiated: an outside world in
  which the remote service cannot be reached and the formatting passes leave a text
  alone, an onboarded user, a lesson row, and a lesson service that has been
  initialised.
\<close>

definition example_env :: env where
  "example_env =
     \<lparr>apply_whatsapp_formatting = (\<lambda>text. text), improve_readability = (\<lambda>text. text),
      hash = (\<lambda>s. int (length s)), utcnow = 5,
      remote_test = Raises (APIError ''connection refused''),
      remote_lesson = (\<lambda>sys_prompt usr_prompt. Raises (APIError ''connection refused''))\<rparr>"







text \<open>A complete onboarding conversation from the initial state, and the user it stores.\<close>

definition onboarding_messages :: "string list" where
  "onboarding_messages = [''hello'', ''Ada'', ''30'', ''Chile'', ''math, art'', ''text'', ''EN'']"

definition onboarded_world :: world where
  "onboarded_world =
     foldl (\<lambda>w message. snd (process_message example_env w ''+15550100'' message))
       (initial_world None) onboarding_messages"

definition onboarded_user :: user where
  "onboarded_user =
     \<lparr>u_id = 1, phone_number = ''+15550100'', name = Some ''Ada'', age = Some 30,
      country = Some ''Chile'',
      preferred_subjects = Some (store_subjects_as_json [''Mathematics'', ''Art'']),
      learning_mode = Some ''text'', language = ''en'', onboarding_step = ''completed'',
      is_onboarded = True, u_created_at = 5, u_updated_at = 5\<rparr>"






section \<open>Properties of the store operations\<close>



lemma greeting_25: "get_greeting_emoji (Some 25) = Inr emoji_wave"
  by (simp add: get_greeting_emoji_def)



section \<open>The first message of an unknown number\<close>




section \<open>The onboarding steps\<close>

lemma onboarding_turn:
  assumes "get_user_by_phone (db w) phone = Some u" and "\<not> is_onboarded u"
  shows "process_message env w phone message =
           (case handle_onboarding env w u message False of
              (Inr reply, w1) \<Rightarrow> (reply, w1)
            | (Inl e, w1) \<Rightarrow> (technical_difficulties, w1))"
  using assms by (simp add: process_message_def handle_message_def)


lemma name_invalid:
  assumes "get_user_by_phone (db w) phone = Some u" and "\<not> is_onboarded u"
    and "onboarding_step u = ''name''" and "length (strip message) < 1 \<or> 50 < length (strip message)"
  shows "process_message env w phone message = (name_reprompt, w)"
  using assms by (auto simp add: onboarding_turn handle_onboarding_def process_name_step_def Let_def)

lemma age_invalid:
  assumes "get_user_by_phone (db w) phone = Some u" and "\<not> is_onboarded u"
    and "onboarding_step u = ''age''" and "validate_age message = None"
  shows "process_message env w phone message = (age_reprompt, w)"
  using assms by (simp add: onboarding_turn handle_onboarding_def process_age_step_def Let_def)

lemma country_invalid:
  assumes "get_user_by_phone (db w) phone = Some u" and "\<not> is_onboarded u"
    and "onboarding_step u = ''country''" and "validate_country message = None"
  shows "process_message env w phone message = (country_reprompt, w)"
  using assms by (simp add: onboarding_turn handle_onboarding_def process_country_step_def Let_def)

lemma subjects_invalid:
  assumes "get_user_by_phone (db w) phone = Some u" and "\<not> is_onboarded u"
    and "onboarding_step u = ''subjects''" and "validate_subjects message = []"
  shows "process_message env w phone message = (subjects_reprompt, w)"
  using assms by (simp add: onboarding_turn handle_onboarding_def process_subjects_step_def Let_def)

lemma learning_mode_invalid:
  assumes "get_user_by_phone (db w) phone = Some u" and "\<not> is_onboarded u"
    and "onboarding_step u = ''learning_mode''" and "validate_learning_mode message = None"
  shows "process_message env w phone message = (learning_mode_reprompt, w)"
  using assms by (simp add: onboarding_turn handle_onboarding_def process_learning_mode_step_def Let_def)

lemma language_invalid:
  assumes "get_user_by_phone (db w) phone = Some u" and "\<not> is_onboarded u"
    and "onboarding_step u = ''language''"
    and "lower (strip message) \<notin> set [''english'', ''en'', ''eng'']"
  shows "process_message env w phone message = (language_reprompt, w)"
  using assms by (simp add: onboarding_turn handle_onboarding_def process_language_step_def Let_def)

text \<open>What a step of the onboarding does to the stored user.\<close>

lemma name_valid:
  assumes "get_user_by_phone (db w) phone = Some u" and "\<not> is_onboarded u"
    and "onboarding_step u = ''name''" and "1 \<le> length (strip message)" and "length (strip message) \<le> 50"
  shows "process_message env w phone message =
           (name_reply (strip message) emoji_wave,
            w\<lparr>db := snd (update_user env (db w) u [Name (strip message), Onboarding_step ''age''])\<rparr>)"
  using assms
  by (auto simp add: onboarding_turn handle_onboarding_def process_name_step_def Let_def greeting_25
      split: prod.splits)

lemma age_valid:
  assumes "get_user_by_phone (db w) phone = Some u" and "\<not> is_onboarded u"
    and "onboarding_step u = ''age''" and "validate_age message = Some a"
  shows "snd (process_message env w phone message) =
           w\<lparr>db := snd (update_user env (db w) u [Age a, Onboarding_step ''country''])\<rparr>"
  using assms
  by (simp add: onboarding_turn handle_onboarding_def process_age_step_def Let_def
      get_greeting_emoji_def split: prod.splits)

lemma country_valid:
  assumes "get_user_by_phone (db w) phone = Some u" and "\<not> is_onboarded u"
    and "onboarding_step u = ''country''" and "validate_country message = Some c"
  shows "snd (process_message env w phone message) =
           w\<lparr>db := snd (update_user env (db w) u [Country c, Onboarding_step ''subjects''])\<rparr>"
  using assms
  by (simp add: onboarding_turn handle_onboarding_def process_country_step_def Let_def
      split: prod.splits)

lemma subjects_valid:
  assumes "get_user_by_phone (db w) phone = Some u" and "\<not> is_onboarded u"
    and "onboarding_step u = ''subjects''" and "validate_subjects message \<noteq> []"
  shows "snd (process_message env w phone message) =
           w\<lparr>db := snd (update_user env (db w) u
                  [Preferred_subjects (store_subjects_as_json (validate_subjects message)),
                   Onboarding_step ''learning_mode''])\<rparr>"
  using assms
  by (simp add: onboarding_turn handle_onboarding_def process_subjects_step_def Let_def
      split: prod.splits)

lemma learning_mode_valid:
  assumes "get_user_by_phone (db w) phone = Some u" and "\<not> is_onboarded u"
    and "onboarding_step u = ''learning_mode''" and "validate_learning_mode message = Some mode"
  shows "snd (process_message env w phone message) =
           w\<lparr>db := snd (update_user env (db w) u [Learning_mode mode, Onboarding_step ''language''])\<rparr>"
  using assms
  by (simp add: onboarding_turn handle_onboarding_def process_learning_mode_step_def Let_def
      split: prod.splits)

lemma language_valid:
  assumes "get_user_by_phone (db w) phone = Some u" and "\<not> is_onboarded u"
    and "onboarding_step u = ''language''"
    and "lower (strip message) \<in> set [''english'', ''en'', ''eng'']"
  shows "snd (process_message env w phone message) =
           w\<lparr>db := snd (update_user env (db w) u
                  [Language ''en'', Is_onboarded True, Onboarding_step ''completed''])\<rparr>"
  using assms
  by (auto simp add: onboarding_turn handle_onboarding_def process_language_step_def Let_def
      split: prod.splits sum.splits)

lemma other_step:
  assumes "get_user_by_phone (db w) phone = Some u" and "\<not> is_onboarded u"
    and "onboarding_step u \<notin> set [''name'', ''age'', ''country'', ''subjects'', ''learning_mode'', ''language'']"
  shows "process_message env w phone message = (start_over_reply, w)"
  using assms
  by (simp add: onboarding_turn handle_onboarding_def Let_def)




text \<open>
  Every turn of a user who is not onboarded leaves the state alone or writes the
  user's row once, moving the step to the one that follows; only the move to
  \<open>completed\<close> sets the onboarded flag.
\<close>

lemma onboarding_effect:
  assumes found: "get_user_by_phone (db w) phone = Some u" and nb: "\<not> is_onboarded u"
  shows "snd (process_message env w phone message) = w
       \<or> (\<exists>kwargs s.
            snd (process_message env w phone message)
              = w\<lparr>db := snd (update_user env (db w) u (kwargs @ [Onboarding_step s]))\<rparr>
            \<and> (onboarding_step u, s) \<in>
                 set [(''name'', ''age''), (''age'', ''country''), (''country'', ''subjects''),
                      (''subjects'', ''learning_mode''), (''learning_mode'', ''language''),
                      (''language'', ''completed'')]
            \<and> (\<forall>x. is_onboarded (fold set_user_attr kwargs x)
                      = (is_onboarded x \<or> s = ''completed'')))"
    (is "?same \<or> ?moved")
proof -
  let ?w1 = "snd (process_message env w phone message)"
  have same: "?w1 = w \<Longrightarrow> ?thesis" by simp
  have moved: "\<And>kwargs s. ?w1 = w\<lparr>db := snd (update_user env (db w) u (kwargs @ [Onboarding_step s]))\<rparr>
      \<Longrightarrow> (onboarding_step u, s) \<in>
               set [(''name'', ''age''), (''age'', ''country''), (''country'', ''subjects''),
                    (''subjects'', ''learning_mode''), (''learning_mode'', ''language''),
                    (''language'', ''completed'')]
      \<Longrightarrow> (\<forall>x. is_onboarded (fold set_user_attr kwargs x) = (is_onboarded x \<or> s = ''completed''))
      \<Longrightarrow> ?thesis"
    by blast
  consider (name) "onboarding_step u = ''name''" | (age) "onboarding_step u = ''age''"
    | (country) "onboarding_step u = ''country''" | (subjects) "onboarding_step u = ''subjects''"
    | (mode) "onboarding_step u = ''learning_mode''" | (language) "onboarding_step u = ''language''"
    | (other) "onboarding_step u \<notin> set [''name'', ''age'', ''country'', ''subjects'', ''learning_mode'', ''language'']"
    by auto
  then show ?thesis
  proof cases
    case name
    show ?thesis
    proof (cases "1 \<le> length (strip message) \<and> length (strip message) \<le> 50")
      case True
      then have "?w1 = w\<lparr>db := snd (update_user env (db w) u ([Name (strip message)] @ [Onboarding_step ''age'']))\<rparr>"
        using name_valid[OF found nb name] by simp
      then show ?thesis using name moved[of "[Name (strip message)]" "''age''"] by simp
    next
      case False
      then have "length (strip message) < 1 \<or> 50 < length (strip message)" by (simp add: not_le)
      then have "?w1 = w" using name_invalid[OF found nb name] by simp
      then show ?thesis by (rule same)
    qed
  next
    case age
    show ?thesis
    proof (cases "validate_age message")
      case None
      then have "?w1 = w" using age_invalid[OF found nb age] by simp
      then show ?thesis by (rule same)
    next
      case (Some a)
      then have "?w1 = w\<lparr>db := snd (update_user env (db w) u ([Age a] @ [Onboarding_step ''country'']))\<rparr>"
        using age_valid[OF found nb age] by simp
      then show ?thesis using age moved[of "[Age a]" "''country''"] by simp
    qed
  next
    case country
    show ?thesis
    proof (cases "validate_country message")
      case None
      then have "?w1 = w" using country_invalid[OF found nb country] by simp
      then show ?thesis by (rule same)
    next
      case (Some c)
      then have "?w1 = w\<lparr>db := snd (update_user env (db w) u ([Country c] @ [Onboarding_step ''subjects'']))\<rparr>"
        using country_valid[OF found nb country] by simp
      then show ?thesis using country moved[of "[Country c]" "''subjects''"] by simp
    qed
  next
    case subjects
    show ?thesis
    proof (cases "validate_subjects message = []")
      case True
      then have "?w1 = w" using subjects_invalid[OF found nb subjects] by simp
      then show ?thesis by (rule same)
    next
      case False
      then have "?w1 = w\<lparr>db := snd (update_user env (db w) u
          ([Preferred_subjects (store_subjects_as_json (validate_subjects message))] @ [Onboarding_step ''learning_mode'']))\<rparr>"
        using subjects_valid[OF found nb subjects] by simp
      then show ?thesis using subjects moved[of "[Preferred_subjects (store_subjects_as_json (validate_subjects message))]" "''learning_mode''"] by simp
    qed
  next
    case mode
    show ?thesis
    proof (cases "validate_learning_mode message")
      case None
      then have "?w1 = w" using learning_mode_invalid[OF found nb mode] by simp
      then show ?thesis by (rule same)
    next
      case (Some c)
      then have "?w1 = w\<lparr>db := snd (update_user env (db w) u ([Learning_mode c] @ [Onboarding_step ''language'']))\<rparr>"
        using learning_mode_valid[OF found nb mode] by simp
      then show ?thesis using mode moved[of "[Learning_mode c]" "''language''"] by simp
    qed
  next
    case language
    show ?thesis
    proof (cases "lower (strip message) \<in> set [''english'', ''en'', ''eng'']")
      case False
      then have "?w1 = w" using language_invalid[OF found nb language] by simp
      then show ?thesis by (rule same)
    next
      case True
      then have "?w1 = w\<lparr>db := snd (update_user env (db w) u
           ([Language ''en'', Is_onboarded True] @ [Onboarding_step ''completed'']))\<rparr>"
        using language_valid[OF found nb language] by simp
      then show ?thesis using language moved[of "[Language ''en'', Is_onboarded True]" "''completed''"] by simp
    qed
  next
    case other
    then have "?w1 = w" using other_step[OF found nb other] by simp
    then show ?thesis by (rule same)
  qed
qed






section \<open>The name step\<close>



section \<open>The commands of an onboarded user\<close>

lemma regular_turn:
  assumes "get_user_by_phone (db w) phone = Some u" and "is_onboarded u"
  shows "process_message env w phone message =
           (case handle_regular_message env w u message of
              (Inr reply, w1) \<Rightarrow> (reply, w1)
            | (Inl e, w1) \<Rightarrow> (technical_difficulties, w1))"
  using assms by (simp add: process_message_def handle_message_def)

lemma help_world: "snd (handle_help_command env w u) = w"
  by (simp add: handle_help_command_def)

lemma general_world: "snd (handle_general_message env w u message) = w"
  by (simp add: handle_general_message_def Let_def split: option.splits)

lemma lesson_effect:
  "(\<exists>r l1. handle_lesson_command env w u message = (Inr r, w\<lparr>llm := l1\<rparr>))
   \<or> (\<exists>r l1 t content. handle_lesson_command env w u message
         = (Inr r, \<lparr>db = snd (create_progress env (db w) (u_id u) t content 1), llm = l1\<rparr>))"
proof (cases "parse_lesson_command message")
  case None
  then have "handle_lesson_command env w u message = (Inr specify_topic_reply, w\<lparr>llm := llm w\<rparr>)"
    by (simp add: handle_lesson_command_def)
  then show ?thesis by blast
next
  case (Some t)
  show ?thesis
  proof (cases "t = []")
    case True
    then have "handle_lesson_command env w u message = (Inr specify_topic_reply, w\<lparr>llm := llm w\<rparr>)"
      using Some by (simp add: handle_lesson_command_def)
    then show ?thesis by blast
  next
    case False
    obtain g l1 where g: "generate_lesson env (llm w) t (age u) (name u) = (g, l1)"
      by (cases "generate_lesson env (llm w) t (age u) (name u)")
    show ?thesis
    proof (cases g)
      case (Inl e)
      then have "handle_lesson_command env w u message = (Inr (lesson_failure_reply t), w\<lparr>llm := l1\<rparr>)"
        using Some False g by (simp add: handle_lesson_command_def)
      then show ?thesis by blast
    next
      case (Inr content)
      then have "handle_lesson_command env w u message
          = (Inr (lesson_reply t (format_for_whatsapp env content (age u))),
             \<lparr>db = snd (create_progress env (db w) (u_id u) t content 1), llm = l1\<rparr>)"
        using Some False g by (simp add: handle_lesson_command_def Let_def split: prod.splits)
      then show ?thesis by blast
    qed
  qed
qed

lemma next_effect:
  "(\<exists>r l1. handle_next_command env w u = (Inr r, w\<lparr>llm := l1\<rparr>))
   \<or> (\<exists>r l1 p kwargs. get_current_lesson (db w) (u_id u) = Some p
         \<and> handle_next_command env w u
             = (Inr r, \<lparr>db = snd (update_progress env (db w) p kwargs), llm = l1\<rparr>))"
proof (cases "get_current_lesson (db w) (u_id u)")
  case None
  then have "handle_next_command env w u = (Inr no_lessons_reply, w\<lparr>llm := llm w\<rparr>)"
    by (simp add: handle_next_command_def)
  then show ?thesis by blast
next
  case (Some p)
  obtain g l1 where g: "generate_lesson env (llm w) (follow_up (topic p)) (age u) (name u) = (g, l1)"
    by (cases "generate_lesson env (llm w) (follow_up (topic p)) (age u) (name u)")
  show ?thesis
  proof (cases g)
    case (Inl e)
    then have "handle_next_command env w u = (Inr next_failure_reply, w\<lparr>llm := l1\<rparr>)"
      using Some g by (simp add: handle_next_command_def Let_def)
    then show ?thesis by blast
  next
    case (Inr content)
    then have "\<exists>r. handle_next_command env w u
        = (Inr r, \<lparr>db = snd (update_progress env (db w) p
                 [Lesson_step (lesson_step p + 1), Lesson_content content]), llm = l1\<rparr>)"
      using Some g by (simp add: handle_next_command_def Let_def split: prod.splits)
    then show ?thesis using Some by blast
  qed
qed

lemma regular_effect:
  "snd (handle_regular_message env w u message) = w
   \<or> (\<exists>l1. snd (handle_regular_message env w u message) = w\<lparr>llm := l1\<rparr>)
   \<or> (\<exists>l1 t content. snd (handle_regular_message env w u message)
         = \<lparr>db = snd (create_progress env (db w) (u_id u) t content 1), llm = l1\<rparr>)
   \<or> (\<exists>l1 p kwargs. get_current_lesson (db w) (u_id u) = Some p
         \<and> snd (handle_regular_message env w u message)
             = \<lparr>db = snd (update_progress env (db w) p kwargs), llm = l1\<rparr>)"
proof -
  have "handle_regular_message env w u message = handle_help_command env w u
      \<or> handle_regular_message env w u message = handle_lesson_command env w u (strip message)
      \<or> handle_regular_message env w u message = handle_next_command env w u
      \<or> handle_regular_message env w u message = handle_general_message env w u (strip message)"
    by (simp add: handle_regular_message_def Let_def)
  then consider (hlp) "handle_regular_message env w u message = handle_help_command env w u"
    | (lesson) "handle_regular_message env w u message = handle_lesson_command env w u (strip message)"
    | (nxt) "handle_regular_message env w u message = handle_next_command env w u"
    | (general) "handle_regular_message env w u message = handle_general_message env w u (strip message)"
    by blast
  then show ?thesis
  proof cases
    case hlp
    then show ?thesis by (simp add: help_world)
  next
    case lesson
    then show ?thesis using lesson_effect[of env w u "strip message"] by (metis snd_conv)
  next
    case nxt
    then show ?thesis using next_effect[of env w u] by (metis snd_conv)
  next
    case general
    then show ?thesis by (simp add: general_world)
  qed
qed


section \<open>The stores the service reaches\<close>

lemma fold_max_ge: "a \<le> fold max ids (a::nat)"
proof (induction ids arbitrary: a)
  case Nil show ?case by simp
next
  case (Cons i ids)
  show ?case using Cons.IH[of "max i a"] by simp
qed

lemma fold_max_member: "x \<in> set ids \<Longrightarrow> x \<le> fold max ids (a::nat)"
proof (induction ids arbitrary: a)
  case Nil then show ?case by simp
next
  case (Cons i ids)
  show ?case
  proof (cases "x = i")
    case True
    then show ?thesis using fold_max_ge[of "max i a" ids] by simp
  next
    case False
    then show ?thesis using Cons.IH[of "max i a"] Cons.prems by simp
  qed
qed

lemma next_id_fresh: "x \<in> set ids \<Longrightarrow> x < next_id ids"
  using fold_max_member[of x ids 0] by (simp add: next_id_def)

lemma u_id_fold_set_user_attr: "u_id (fold set_user_attr kwargs u) = u_id u"
proof (induction kwargs arbitrary: u)
  case Nil show ?case by simp
next
  case (Cons a kwargs)
  show ?case by (cases a) (simp_all add: Cons.IH)
qed

lemma p_id_fold_set_progress_attr: "p_id (fold set_progress_attr kwargs p) = p_id p"
proof (induction kwargs arbitrary: p)
  case Nil show ?case by simp
next
  case (Cons a kwargs)
  show ?case by (cases a) (simp_all add: Cons.IH)
qed

lemma map_key_update:
  assumes "\<And>x. k (f x) = k x"
  shows "map k (map (\<lambda>x. if k x = i then f x else x) xs) = map k xs"
  by (induction xs) (simp_all add: assms)

lemma found_user_stored: "get_user_by_phone d phone = Some u \<Longrightarrow> u \<in> set (users d)"
  by (auto simp add: get_user_by_phone_def find_Some_iff)

lemma consistent_create_user:
  assumes "consistent d"
  shows "consistent (snd (create_user env d phone))"
proof -
  have "next_id (map u_id (users d)) \<notin> set (map u_id (users d))"
    using next_id_fresh[of "next_id (map u_id (users d))" "map u_id (users d)"] by auto
  then show ?thesis using assms by (simp add: consistent_def create_user_def Let_def)
qed

lemma consistent_create_progress:
  assumes "consistent d"
  shows "consistent (snd (create_progress env d uid t content steps))"
proof -
  have "next_id (map p_id (progress_rows d)) \<notin> set (map p_id (progress_rows d))"
    using next_id_fresh[of "next_id (map p_id (progress_rows d))" "map p_id (progress_rows d)"] by auto
  then show ?thesis using assms by (simp add: consistent_def create_progress_def Let_def)
qed

lemma consistent_update_progress:
  assumes "consistent d"
  shows "consistent (snd (update_progress env d p kwargs))"
proof -
  let ?rows = "map (\<lambda>q. if p_id q = p_id p
            then (fold set_progress_attr kwargs q)\<lparr>p_updated_at := utcnow env\<rparr> else q) (progress_rows d)"
  have ids: "map p_id ?rows = map p_id (progress_rows d)"
    by (rule map_key_update) (simp add: p_id_fold_set_progress_attr)
  have rows: "progress_rows (snd (update_progress env d p kwargs)) = ?rows"
    by (simp add: update_progress_def Let_def)
  have us: "users (snd (update_progress env d p kwargs)) = users d"
    by (simp add: update_progress_def Let_def)
  show ?thesis
    unfolding consistent_def rows us ids using assms unfolding consistent_def .
qed

lemma consistent_update_user:
  assumes c: "consistent d" and u: "u \<in> set (users d)" and nb: "\<not> is_onboarded u"
    and flag: "\<forall>x. is_onboarded (fold set_user_attr kwargs x) = (is_onboarded x \<or> s = ''completed'')"
  shows "consistent (snd (update_user env d u (kwargs @ [Onboarding_step s])))"
proof -
  let ?change = "\<lambda>x. (fold set_user_attr (kwargs @ [Onboarding_step s]) x)\<lparr>u_updated_at := utcnow env\<rparr>"
  let ?us = "map (\<lambda>x. if u_id x = u_id u then ?change x else x) (users d)"
  have ids: "map u_id ?us = map u_id (users d)"
    by (rule map_key_update) (simp add: u_id_fold_set_user_attr)
  have same: "\<And>x. x \<in> set (users d) \<Longrightarrow> u_id x = u_id u \<Longrightarrow> x = u"
    using c u by (auto simp add: consistent_def distinct_map inj_on_def)
  have one: "\<And>x. x \<in> set (users d) \<Longrightarrow>
      is_onboarded (if u_id x = u_id u then ?change x else x)
        = (onboarding_step (if u_id x = u_id u then ?change x else x) = ''completed'')"
  proof -
    fix x assume x: "x \<in> set (users d)"
    show "is_onboarded (if u_id x = u_id u then ?change x else x)
        = (onboarding_step (if u_id x = u_id u then ?change x else x) = ''completed'')"
    proof (cases "u_id x = u_id u")
      case True
      then have "x = u" using same x by simp
      then show ?thesis using True nb flag by simp
    next
      case False
      then show ?thesis using c x by (simp add: consistent_def list_all_iff)
    qed
  qed
  have "\<forall>y \<in> set ?us. is_onboarded y = (onboarding_step y = ''completed'')"
  proof
    fix y assume "y \<in> set ?us"
    then obtain x where "x \<in> set (users d)"
      and "y = (if u_id x = u_id u then ?change x else x)"
      unfolding set_map by blast
    then show "is_onboarded y = (onboarding_step y = ''completed'')"
      using one[of x] by simp
  qed
  then have la: "list_all (\<lambda>u. is_onboarded u = (onboarding_step u = ''completed'')) ?us"
    unfolding list_all_iff .
  have us: "users (snd (update_user env d u (kwargs @ [Onboarding_step s]))) = ?us"
    by (simp add: update_user_def Let_def)
  have rows: "progress_rows (snd (update_user env d u (kwargs @ [Onboarding_step s])))
      = progress_rows d"
    by (simp add: update_user_def Let_def)
  show ?thesis
    unfolding consistent_def us rows ids using c la unfolding consistent_def by blast
qed

lemma process_message_consistent:
  assumes c: "consistent (db w)"
  shows "consistent (db (snd (process_message env w phone message)))"
proof (cases "get_user_by_phone (db w) phone")
  case None
  then have "snd (process_message env w phone message) = w\<lparr>db := snd (create_user env (db w) phone)\<rparr>"
    by (simp add: process_message_def handle_message_def handle_onboarding_def create_user_def
        greeting_25 Let_def truthy_def)
  then show ?thesis using consistent_create_user[OF c] by simp
next
  case (Some u)
  show ?thesis
  proof (cases "is_onboarded u")
    case False
    from onboarding_effect[OF Some False, of env message] show ?thesis
    proof (elim disjE exE conjE)
      assume "snd (process_message env w phone message) = w"
      then show ?thesis using c by simp
    next
      fix kwargs s
      assume "snd (process_message env w phone message)
          = w\<lparr>db := snd (update_user env (db w) u (kwargs @ [Onboarding_step s]))\<rparr>"
        and "\<forall>x. is_onboarded (fold set_user_attr kwargs x) = (is_onboarded x \<or> s = ''completed'')"
      then show ?thesis
        using consistent_update_user[OF c found_user_stored[OF Some] False] by simp
    qed
  next
    case True
    have "snd (process_message env w phone message) = snd (handle_regular_message env w u message)"
      using regular_turn[OF Some True, of env message]
      by (simp split: prod.splits sum.splits)
    then show ?thesis
      using regular_effect[of env w u message] c consistent_create_progress[OF c]
        consistent_update_progress[OF c]
      by (elim disjE exE conjE) simp_all
  qed
qed

lemma reachable_consistent: "reachable w \<Longrightarrow> consistent (db w)"
proof (induction rule: reachable.induct)
  case (start service)
  show ?case by (simp add: consistent_def)
next
  case (turn w env phone message)
  show ?case using turn.IH by (rule process_message_consistent)
qed

lemma reachable_foldl:
  "reachable w \<Longrightarrow> reachable (foldl (\<lambda>w message. snd (process_message env w phone message)) w ms)"
proof (induction ms arbitrary: w)
  case Nil
  then show ?case by simp
next
  case (Cons m ms)
  show ?case using Cons.IH[OF reachable.turn[OF Cons.prems]] by simp
qed

text \<open>
  Claim C7. In every state the service reaches from its start, through any sequence
  of turns, a stored user is flagged as onboarded if and only if the user's step is
  \<open>completed\<close>.
\<close>

theorem onboarded_iff_completed:
  assumes "reachable w" and "u \<in> set (users (db w))"
  shows "is_onboarded u \<longleftrightarrow> onboarding_step u = ''completed''"
  using reachable_consistent[OF assms(1)] assms(2) by (simp add: consistent_def list_all_iff)

lemma onboarded_world_users: "users (db onboarded_world) = [onboarded_user]"
  by code_simp

theorem onboarded_iff_completed_witness:
  "reachable onboarded_world \<and> onboarded_user \<in> set (users (db onboarded_world))
   \<and> (is_onboarded onboarded_user \<longleftrightarrow> onboarding_step onboarded_user = ''completed'')"
proof -
  have r: "reachable onboarded_world"
    unfolding onboarded_world_def initial_world_def
    by (rule reachable_foldl) (rule reachable.start)
  have m: "onboarded_user \<in> set (users (db onboarded_world))"
    by (simp add: onboarded_world_users)
  show ?thesis using onboarded_iff_completed[OF r m] r m by simp
qed

section \<open>The lesson service\<close>













text \<open>
  Claim C4 says that generating a lesson never fails outward and that an unavailable
  client ends in the fallback lesson. The code does otherwise: \<open>generate_lesson\<close> calls
  \<open>initialize\<close> outside its \<open>try\<close>, and \<open>initialize\<close> raises when the key is missing or
  the connection test fails. So for a service that is not initialised, a missing key
  or a failing connection test makes \<open>generate_lesson\<close> raise, and the test for an
  unavailable client that follows the call is never reached.
\<close>

theorem generate_lesson_raises_uninitialised:
  assumes "\<not> initialized s"
  shows "(\<not> truthy (api_key s) \<longrightarrow>
            (\<exists>msg. generate_lesson env s t a n = (Inl (Exception msg), s)))
       \<and> (truthy (api_key s) \<and> connection_test env = Inl e \<longrightarrow>
            (\<exists>msg. generate_lesson env s t a n = (Inl (Exception msg), s\<lparr>client := True\<rparr>)))"
  using assms by (simp add: generate_lesson_def initialize_def)


theorem generate_lesson_raises_uninitialised_witness:
  "(\<exists>msg. generate_lesson example_env (new_llm_service None) ''fractions'' (Some 10) (Some ''Alex'')
            = (Inl (Exception msg), new_llm_service None))
   \<and> (\<exists>msg. generate_lesson example_env (new_llm_service (Some ''key'')) ''fractions'' (Some 10) (Some ''Alex'')
            = (Inl (Exception msg), (new_llm_service (Some ''key''))\<lparr>client := True\<rparr>))"
proof -
  have h1: "\<not> initialized (new_llm_service None)" "\<not> truthy (api_key (new_llm_service None))"
    by (simp_all add: new_llm_service_def truthy_def)
  have h2: "\<not> initialized (new_llm_service (Some ''key''))"
    "truthy (api_key (new_llm_service (Some ''key'')))"
    by (simp_all add: new_llm_service_def truthy_def)
  have h3: "connection_test example_env = Inl (APIError ''connection refused'')"
    by (simp add: connection_test_def example_env_def)
  show ?thesis
    using generate_lesson_raises_uninitialised[OF h1(1), where env = example_env
        and e = "APIError ''connection refused''" and t = "''fractions''" and a = "Some 10"
        and n = "Some ''Alex''"]
      generate_lesson_raises_uninitialised[OF h2(1), where env = example_env
        and e = "APIError ''connection refused''" and t = "''fractions''" and a = "Some 10"
        and n = "Some ''Alex''"]
      h1 h2 h3
    by blast
qed

section \<open>The command /next\<close>












section \<open>The command /lesson\<close>







section \<open>Failures that reach the top of a turn\<close>







section \<open>Free text\<close>









end
